theory Spec2Isabelle
  imports Main "HOL-Library.Multiset"
begin

section \<open>JSON documents and Go's decoding of them\<close>

text \<open>
  The package \<^verbatim>\<open>jsonschematree\<close> (file \<^verbatim>\<open>pkg/netsuite/netsuite.go\<close>) reads and
  writes schema nodes through \<^verbatim>\<open>encoding/json\<close>. Documents are modelled as JSON values,
  that is, after the text has been tokenised: white space and escape sequences are
  outside the model, and \<open>JString\<close> carries the string that the decoder yields for the
  token. An object keeps its members in document order; Go stores them in a map, so of
  two members with the same key the later one wins.
\<close>

datatype json =
    JNull
  | JBool bool
  | JNumber string
  | JString string
  | JArray "json list"
  | JObject "(string \<times> json) list"

text \<open>
  \<^verbatim>\<open>json.Unmarshal(data, &v)\<close> with \<^verbatim>\<open>v\<close> of type \<^verbatim>\<open>interface{}\<close> stores one of
  \<^verbatim>\<open>nil\<close>, \<^verbatim>\<open>bool\<close>, \<^verbatim>\<open>float64\<close>, \<^verbatim>\<open>string\<close>, \<^verbatim>\<open>[]interface{}\<close> and
  \<^verbatim>\<open>map[string]interface{}\<close>. The dynamic type \<^verbatim>\<open>[]string\<close>, which the type switch
  of \<^verbatim>\<open>UnmarshalJSON\<close> tests for, is a value of its own (\<open>AnyStrings\<close>) that the
  decoder never builds.
\<close>

datatype goAny =
    AnyNil
  | AnyBool bool
  | AnyFloat64 string
  | AnyString string
  | AnySlice "goAny list"
  | AnyMap "(string \<times> goAny) list"
  | AnyStrings "string list"

fun decodeAny :: "json \<Rightarrow> goAny" where
  "decodeAny JNull = AnyNil"
| "decodeAny (JBool b) = AnyBool b"
| "decodeAny (JNumber n) = AnyFloat64 n"
| "decodeAny (JString s) = AnyString s"
| "decodeAny (JArray xs) = AnySlice (map decodeAny xs)"
| "decodeAny (JObject kvs) = AnyMap (map (\<lambda>(k, v). (k, decodeAny v)) kvs)"

text \<open>Looking a key up in \<^verbatim>\<open>map[string]json.RawMessage\<close>: the last member wins.\<close>

definition member :: "(string \<times> json) list \<Rightarrow> string \<Rightarrow> json option" where
  "member kvs k = map_of (rev kvs) k"

datatype unmarshalError =
    JSONTypeError
  | UnexpectedTypeForType
  | Wrapped unmarshalError

text \<open>Decoding into a \<^verbatim>\<open>string\<close> or a \<^verbatim>\<open>bool\<close> variable that holds its zero value:
  \<^verbatim>\<open>null\<close> leaves the variable as it is, a value of another kind is an error.\<close>

fun unmarshalString :: "json \<Rightarrow> unmarshalError + string" where
  "unmarshalString (JString s) = Inr s"
| "unmarshalString JNull = Inr ''''"
| "unmarshalString _ = Inl JSONTypeError"

fun unmarshalBool :: "json \<Rightarrow> unmarshalError + bool" where
  "unmarshalBool (JBool b) = Inr b"
| "unmarshalBool JNull = Inr False"
| "unmarshalBool _ = Inl JSONTypeError"

section \<open>Strings written by \<^verbatim>\<open>json.Marshal\<close>\<close>

text \<open>
  A Go string is a sequence of bytes. \<^verbatim>\<open>json.Marshal\<close> writes it coerced to valid
  UTF-8: the encoder copies every well-formed rune and replaces each byte at which
  \<^verbatim>\<open>utf8.DecodeRuneInString\<close> reports an error of width 1 by the replacement character
  U+FFFD (the bytes EF BF BD). \<open>runeSize\<close> is the width of the well-formed rune at the
  head of a string, or 0 when there is none, following the table of \<^verbatim>\<open>unicode/utf8\<close>;
  \<open>ValidString\<close> is \<^verbatim>\<open>utf8.ValidString\<close>.
\<close>

definition byte :: "char \<Rightarrow> nat" where
  "byte c = of_char c"

definition continuation :: "char \<Rightarrow> bool" where
  "continuation c = (0x80 \<le> byte c \<and> byte c \<le> 0xBF)"

fun runeSize :: "string \<Rightarrow> nat" where
  "runeSize [] = 0"
| "runeSize (s0 # rest) =
     (if byte s0 < 0x80 then 1
      else if 0xC2 \<le> byte s0 \<and> byte s0 \<le> 0xDF then
        (case rest of
           s1 # _ \<Rightarrow> if continuation s1 then 2 else 0
         | _ \<Rightarrow> 0)
      else if 0xE0 \<le> byte s0 \<and> byte s0 \<le> 0xEF then
        (case rest of
           s1 # s2 # _ \<Rightarrow>
             if (if byte s0 = 0xE0 then 0xA0 else 0x80) \<le> byte s1
                \<and> byte s1 \<le> (if byte s0 = 0xED then 0x9F else 0xBF)
                \<and> continuation s2
             then 3 else 0
         | _ \<Rightarrow> 0)
      else if 0xF0 \<le> byte s0 \<and> byte s0 \<le> 0xF4 then
        (case rest of
           s1 # s2 # s3 # _ \<Rightarrow>
             if (if byte s0 = 0xF0 then 0x90 else 0x80) \<le> byte s1
                \<and> byte s1 \<le> (if byte s0 = 0xF4 then 0x8F else 0xBF)
                \<and> continuation s2 \<and> continuation s3
             then 4 else 0
         | _ \<Rightarrow> 0)
      else 0)"

lemma runeSize_le: "runeSize s \<le> length s"
  by (cases s) (auto split: list.splits)

function toValidUTF8 :: "string \<Rightarrow> string" where
  "toValidUTF8 [] = []"
| "toValidUTF8 (s0 # rest) =
     (if runeSize (s0 # rest) = 0 then [CHR 0xEF, CHR 0xBF, CHR 0xBD] @ toValidUTF8 rest
      else take (runeSize (s0 # rest)) (s0 # rest)
           @ toValidUTF8 (drop (runeSize (s0 # rest)) (s0 # rest)))"
  by pat_completeness auto
termination
  by (relation "measure length") (auto simp del: runeSize.simps)

function ValidString :: "string \<Rightarrow> bool" where
  "ValidString [] = True"
| "ValidString (s0 # rest) =
     (if runeSize (s0 # rest) = 0 then False
      else ValidString (drop (runeSize (s0 # rest)) (s0 # rest)))"
  by pat_completeness auto
termination
  by (relation "measure length") (auto simp del: runeSize.simps)

declare toValidUTF8.simps(2) [simp del] ValidString.simps(2) [simp del]


definition marshalString :: "string \<Rightarrow> json" where
  "marshalString s = JString (toValidUTF8 s)"

section \<open>Schema nodes\<close>

text \<open>
  \<^verbatim>\<open>type schemaType []string\<close>: a Go slice, which is \<^verbatim>\<open>nil\<close> (\<open>None\<close>) or holds a
  list of tags. \<^verbatim>\<open>len\<close> and \<^verbatim>\<open>range\<close> treat the nil slice as empty (\<open>tags\<close>);
  \<^verbatim>\<open>json.Marshal\<close> does not.
\<close>

type_synonym schemaType = "string list option"

fun tags :: "schemaType \<Rightarrow> string list" where
  "tags None = []"
| "tags (Some ts) = ts"

text \<open>
  \<^verbatim>\<open>type Schema struct\<close>. The type parameter is the type of a \<^verbatim>\<open>*Schema\<close> pointer:
  a subtree for parsed documents, an address for the nodes that \<^verbatim>\<open>Walk\<close> mutates.
  \<open>Properties\<close> is \<open>None\<close> for the nil map; its list order stands for the order in
  which one \<^verbatim>\<open>range\<close> over the map enumerates it, which Go leaves unspecified.
\<close>

datatype 'p Schema = Schema
  (Type: schemaType)
  (Properties: "(string \<times> 'p) list option")
  (Items: 'p)
  (Format: string)
  (OneOf: "'p list")
  (ID: string)
  (Ref: string)

subsection \<open>\<^verbatim>\<open>schemaType.MarshalJSON\<close>\<close>

fun marshalStrings :: "schemaType \<Rightarrow> json" where
  "marshalStrings None = JNull"
| "marshalStrings (Some ts) = JArray (map marshalString ts)"

definition MarshalJSON :: "schemaType \<Rightarrow> json" where
  "MarshalJSON t =
     (if length (tags t) = 1 then marshalString (tags t ! 0) else marshalStrings t)"

subsection \<open>\<^verbatim>\<open>Schema.BaseType\<close>\<close>

definition BaseType :: "'p Schema \<Rightarrow> string" where
  "BaseType s =
     (if length (tags (Type s)) = 0 then ''''
      else
        let typesWithoutNull = filter (\<lambda>propertyType. propertyType \<noteq> ''null'') (tags (Type s))
        in if length typesWithoutNull = 0 then ''null''
           else if length typesWithoutNull = 1 then typesWithoutNull ! 0
           else '''')"

section \<open>Parsing: \<^verbatim>\<open>Schema.UnmarshalJSON\<close>\<close>

text \<open>
  A parsed document is a tree: every child pointer is \<^verbatim>\<open>nil\<close> or points to a node
  that no other node points to.
\<close>

datatype Tree = Nil | Node "Tree Schema"

definition zeroSchema :: "Tree Schema" where
  "zeroSchema = Schema None None Nil [] [] [] []"

text \<open>\<^verbatim>\<open>PrepareDummySchema\<close>: the tags are appended one by one to an empty, non-nil
  slice, repeated tags included.\<close>

definition PrepareDummySchema :: "string list \<Rightarrow> Tree Schema" where
  "PrepareDummySchema dummyType =
     Schema (Some (fold (\<lambda>val schemaTypes. schemaTypes @ [val]) dummyType []))
       None Nil [] [] [] []"

text \<open>\<^verbatim>\<open>json.Unmarshal(data, &parsedData)\<close> with \<^verbatim>\<open>parsedData\<close> a nil
  \<^verbatim>\<open>map[string]json.RawMessage\<close>: an object fills the map, \<^verbatim>\<open>null\<close> leaves it nil
  (every lookup then misses), anything else is an error.\<close>

fun rawMessages :: "json \<Rightarrow> (string \<times> json) list option" where
  "rawMessages (JObject kvs) = Some kvs"
| "rawMessages JNull = Some []"
| "rawMessages _ = None"

text \<open>The entries of that map: one per key, with the value of its last member.\<close>

fun entries :: "(string \<times> json) list \<Rightarrow> (string \<times> json) list" where
  "entries [] = []"
| "entries ((k, v) # kvs) = (if k \<in> fst ` set kvs then entries kvs else (k, v) # entries kvs)"

text \<open>\<^verbatim>\<open>propertyTypeSet[jsonType] = struct{}{}\<close> on a \<^verbatim>\<open>map[string]struct{}\<close>, kept as
  the list of its keys.\<close>

definition addKey :: "string \<Rightarrow> string list \<Rightarrow> string list" where
  "addKey k ks = (if k \<in> set ks then ks else ks @ [k])"

text \<open>Lines 323--342: the switch on the dynamic type of the decoded \<^verbatim>\<open>"type"\<close>.\<close>

definition typeKeys :: "(string \<times> json) list \<Rightarrow> unmarshalError + string list" where
  "typeKeys parsedData =
     (case member parsedData ''type'' of
        None \<Rightarrow> Inr []
      | Some propertyTypeJSON \<Rightarrow>
          (case decodeAny propertyTypeJSON of
             AnyStrings propertyType \<Rightarrow> Inr (fold addKey propertyType [])
           | AnyString propertyType \<Rightarrow> Inr (addKey propertyType [])
           | _ \<Rightarrow> Inl UnexpectedTypeForType))"

text \<open>Lines 344--354: \<^verbatim>\<open>"nullable"\<close>.\<close>

definition nullableKeys :: "(string \<times> json) list \<Rightarrow> string list \<Rightarrow> unmarshalError + string list" where
  "nullableKeys parsedData propertyTypeSet =
     (case member parsedData ''nullable'' of
        None \<Rightarrow> Inr propertyTypeSet
      | Some nullableJSON \<Rightarrow>
          (case unmarshalBool nullableJSON of
             Inl err \<Rightarrow> Inl (Wrapped err)
           | Inr nullable \<Rightarrow>
               Inr (if nullable then addKey ''null'' propertyTypeSet else propertyTypeSet)))"

text \<open>
  Lines 323--360 together. The slice \<^verbatim>\<open>s.Type\<close> is filled by a \<^verbatim>\<open>range\<close> over the
  key set; \<open>rangeOrder\<close> is the order in which that loop enumerates the keys, a
  parameter because Go does not fix it. The slice starts as \<^verbatim>\<open>[]string{}\<close>, so it is
  never nil.
\<close>

definition unmarshalType ::
  "(string list \<Rightarrow> string list) \<Rightarrow> (string \<times> json) list \<Rightarrow> unmarshalError + schemaType" where
  "unmarshalType rangeOrder parsedData =
     (case typeKeys parsedData of
        Inl err \<Rightarrow> Inl err
      | Inr propertyTypeSet \<Rightarrow>
          (case nullableKeys parsedData propertyTypeSet of
             Inl err \<Rightarrow> Inl err
           | Inr propertyTypeSet' \<Rightarrow> Inr (Some (rangeOrder propertyTypeSet'))))"

text \<open>Lines 312--321 and 396--405: a string field, kept from the receiver when the
  key is absent.\<close>

definition stringField :: "(string \<times> json) list \<Rightarrow> string \<Rightarrow> string \<Rightarrow> unmarshalError + string" where
  "stringField parsedData key old =
     (case member parsedData key of
        None \<Rightarrow> Inr old
      | Some raw \<Rightarrow>
          (case unmarshalString raw of
             Inl err \<Rightarrow> Inl (Wrapped err)
           | Inr v \<Rightarrow> Inr v))"

text \<open>The first error of a sequence of results, or all the values.\<close>

fun collect :: "('e + 'a) list \<Rightarrow> 'e + 'a list" where
  "collect [] = Inr []"
| "collect (Inl err # _) = Inl err"
| "collect (Inr x # rs) = (case collect rs of Inl err \<Rightarrow> Inl err | Inr xs \<Rightarrow> Inr (x # xs))"

lemma member_in_set: "member kvs k = Some v \<Longrightarrow> (k, v) \<in> set kvs"
  unfolding member_def by (auto dest: map_of_SomeD)

lemma entries_subset: "set (entries kvs) \<subseteq> set kvs"
  by (induction kvs) (auto split: if_splits)

lemma size_in_object: "(k, v) \<in> set kvs \<Longrightarrow> size v < size (JObject kvs)"
proof (induction kvs)
  case Nil
  then show ?case by simp
next
  case (Cons kv kvs)
  then show ?case by (cases kv) auto
qed

lemma size_in_array: "x \<in> set xs \<Longrightarrow> size x < size (JArray xs)"
  by (induction xs) auto

lemma size_rawMessages: "rawMessages d = Some kvs \<Longrightarrow> (k, v) \<in> set kvs \<Longrightarrow> size v < size d"
  by (cases d) (auto dest: size_in_object)

text \<open>
  The method itself, with the receiver's fields before the call as \<open>s\<close>. The children
  are parsed into fresh zero-valued nodes. A \<^verbatim>\<open>null\<close> element of \<^verbatim>\<open>"oneOf"\<close> becomes
  a nil pointer; a \<^verbatim>\<open>null\<close> under \<^verbatim>\<open>"properties"\<close> or \<^verbatim>\<open>"items"\<close> is handed to
  \<^verbatim>\<open>UnmarshalJSON\<close> like any other value. \<^verbatim>\<open>"$id"\<close> is not read. Where several
  properties fail to parse, Go reports the one its map iteration meets first; the model
  reports the first in document order.
\<close>

function UnmarshalJSON ::
  "(string list \<Rightarrow> string list) \<Rightarrow> Tree Schema \<Rightarrow> json \<Rightarrow> unmarshalError + Tree Schema" where
  "UnmarshalJSON rangeOrder s data =
     (case rawMessages data of
        None \<Rightarrow> Inl JSONTypeError
      | Some parsedData \<Rightarrow>
     (case stringField parsedData ''$ref'' (Ref s) of
        Inl err \<Rightarrow> Inl err
      | Inr ref \<Rightarrow>
     (case unmarshalType rangeOrder parsedData of
        Inl err \<Rightarrow> Inl err
      | Inr propertyTypes \<Rightarrow>
     (case (case member parsedData ''properties'' of
              None \<Rightarrow> Inr (Properties s)
            | Some propertiesJSON \<Rightarrow>
                (case rawMessages propertiesJSON of
                   None \<Rightarrow> Inl (Wrapped JSONTypeError)
                 | Some properties \<Rightarrow>
                     (case collect (map (\<lambda>(key, value).
                               case UnmarshalJSON rangeOrder zeroSchema value of
                                 Inl err \<Rightarrow> Inl (Wrapped err)
                               | Inr valueAsSchema \<Rightarrow> Inr (key, Node valueAsSchema))
                             (entries properties)) of
                        Inl err \<Rightarrow> Inl err
                      | Inr parsedProperties \<Rightarrow>
                          Inr (if length parsedProperties \<noteq> 0 then Some parsedProperties
                               else Properties s)))) of
        Inl err \<Rightarrow> Inl err
      | Inr props \<Rightarrow>
     (case (case member parsedData ''items'' of
              None \<Rightarrow> Inr (Items s)
            | Some itemsJSON \<Rightarrow>
                (case UnmarshalJSON rangeOrder zeroSchema itemsJSON of
                   Inl err \<Rightarrow> Inl (Wrapped err)
                 | Inr items \<Rightarrow> Inr (Node items))) of
        Inl err \<Rightarrow> Inl err
      | Inr items \<Rightarrow>
     (case stringField parsedData ''format'' (Format s) of
        Inl err \<Rightarrow> Inl err
      | Inr format \<Rightarrow>
     (case (case member parsedData ''oneOf'' of
              None \<Rightarrow> Inr (OneOf s)
            | Some oneOfJSON \<Rightarrow>
                (case oneOfJSON of
                   JNull \<Rightarrow> Inr []
                 | JArray elements \<Rightarrow>
                     collect (map (\<lambda>element.
                        if element = JNull then Inr Nil
                        else (case UnmarshalJSON rangeOrder zeroSchema element of
                                Inl err \<Rightarrow> Inl (Wrapped err)
                              | Inr alternative \<Rightarrow> Inr (Node alternative)))
                      elements)
                 | _ \<Rightarrow> Inl (Wrapped JSONTypeError))) of
        Inl err \<Rightarrow> Inl err
      | Inr oneOf \<Rightarrow>
          Inr (Schema propertyTypes props items format oneOf (ID s) ref))))))))"
  by pat_completeness auto
termination
proof (relation "measure (\<lambda>(rangeOrder, s, data). size data)", goal_cases)
  case 1
  show ?case by simp
next
  case (2 rangeOrder s data parsedData ref propertyTypes propertiesJSON properties kv key "value")
  have "(key, value) \<in> set properties"
    using 2 entries_subset by fastforce
  with 2 have "size value < size propertiesJSON"
    by (auto dest: size_rawMessages)
  moreover have "size propertiesJSON < size data"
    using 2 by (auto dest!: member_in_set dest: size_rawMessages)
  ultimately show ?case by simp
next
  case (3 rangeOrder s data parsedData ref propertyTypes props itemsJSON)
  then show ?case by (auto dest!: member_in_set dest: size_rawMessages)
next
  case (4 rangeOrder s data parsedData ref propertyTypes props items format oneOfJSON elements element)
  have "size element < size oneOfJSON"
    using 4 by (auto dest: size_in_array)
  moreover have "size oneOfJSON < size data"
    using 4 by (auto dest!: member_in_set dest: size_rawMessages)
  ultimately show ?case by simp
qed

declare UnmarshalJSON.simps [simp del]

section \<open>Serialising a node\<close>

text \<open>
  \<^verbatim>\<open>Schema\<close> has no \<^verbatim>\<open>MarshalJSON\<close> of its own, so \<^verbatim>\<open>json.Marshal\<close> follows the
  struct tags: \<^verbatim>\<open>"type"\<close> is always written, through \<^verbatim>\<open>schemaType.MarshalJSON\<close>
  (which Go also calls on a nil slice); every other field is \<^verbatim>\<open>omitempty\<close>, left out
  when it is a nil pointer, an empty map, an empty slice or the empty string. A nil
  pointer is written as \<^verbatim>\<open>null\<close>, a string or a map key through \<open>toValidUTF8\<close>. Go writes the keys of a map sorted; the model keeps
  the list order, which no lookup depends on.
\<close>

fun MarshalSchema :: "Tree \<Rightarrow> json" where
  "MarshalSchema Nil = JNull"
| "MarshalSchema (Node (Schema t props items format oneOf ident ref)) =
     JObject (
       [(''type'', MarshalJSON t)]
       @ (case props of
            None \<Rightarrow> []
          | Some ps \<Rightarrow>
              if length ps = 0 then []
              else [(''properties'',
                     JObject (map (\<lambda>(k, v). (toValidUTF8 k, MarshalSchema v)) ps))])
       @ (case items of Nil \<Rightarrow> [] | Node _ \<Rightarrow> [(''items'', MarshalSchema items)])
       @ (if format = '''' then [] else [(''format'', marshalString format)])
       @ (if length oneOf = 0 then [] else [(''oneOf'', JArray (map MarshalSchema oneOf))])
       @ (if ident = '''' then [] else [(''$id'', marshalString ident)])
       @ (if ref = '''' then [] else [(''$ref'', marshalString ref)]))"

section \<open>Nodes in memory: \<^verbatim>\<open>Walk\<close> and reference resolution\<close>

text \<open>
  \<^verbatim>\<open>Walk\<close> hands \<^verbatim>\<open>*Schema\<close> pointers to a visitor that may mutate the nodes, and
  \<^verbatim>\<open>resolveReference\<close> makes a node share the children of its referent. Nodes therefore
  live in a heap: a pointer is \<^verbatim>\<open>nil\<close> (\<open>None\<close>) or an address, and the heap maps the
  allocated addresses to node values whose pointer fields are pointers again. Reading
  through \<^verbatim>\<open>nil\<close> panics; so does, in the model, reading an address that is not
  allocated. A \<^verbatim>\<open>Properties\<close> map is a value of the node: no function of the package
  writes to a map after building it.
\<close>

type_synonym addr = nat
type_synonym ptr = "addr option"
type_synonym heap = "addr \<Rightarrow> ptr Schema option"

definition deref :: "heap \<Rightarrow> ptr \<Rightarrow> ptr Schema option" where
  "deref h p = (case p of None \<Rightarrow> None | Some a \<Rightarrow> h a)"

text \<open>A Go function that returns an \<^verbatim>\<open>error\<close>: it returns \<^verbatim>\<open>nil\<close> (\<open>OK\<close>), an error
  value, or it panics. The state it leaves behind is returned next to the outcome.\<close>

datatype 'e outcome = OK | Error 'e | Panic

text \<open>\<^verbatim>\<open>type SchemaWalker interface { Walk(schema *Schema) error }\<close>: a visitor works on
  the heap and on a state \<open>'w\<close> of its own.\<close>

type_synonym ('w, 'e) SchemaWalker = "ptr \<Rightarrow> heap \<times> 'w \<Rightarrow> 'e outcome \<times> (heap \<times> 'w)"

text \<open>\<^verbatim>\<open>type ReferenceResolver interface { Resolve(id string) (*Schema, error) }\<close>.\<close>

type_synonym ('w, 'e) ReferenceResolver = "string \<Rightarrow> heap \<times> 'w \<Rightarrow> ('e + ptr) \<times> (heap \<times> 'w)"

subsection \<open>\<^verbatim>\<open>Schema.resolveReference\<close>\<close>

text \<open>The error of line 473, which wraps the resolver's error and names the reference.\<close>

datatype 'e resolveError = ResolveFailed string 'e

text \<open>An assignment \<^verbatim>\<open>s.F = v\<close> through the pointer \<^verbatim>\<open>s\<close>.\<close>

definition assign :: "ptr \<Rightarrow> (ptr Schema \<Rightarrow> ptr Schema) \<Rightarrow> heap \<Rightarrow> heap option" where
  "assign s f h =
     (case s of
        None \<Rightarrow> None
      | Some a \<Rightarrow> (case h a of None \<Rightarrow> None | Some node \<Rightarrow> Some (h(a \<mapsto> f node))))"

text \<open>An assignment \<^verbatim>\<open>s.F = refSchema.F\<close>: the right-hand side is read first.\<close>

definition copyField ::
  "(ptr Schema \<Rightarrow> ptr Schema \<Rightarrow> ptr Schema) \<Rightarrow> ptr \<Rightarrow> ptr \<Rightarrow> heap \<Rightarrow> heap option" where
  "copyField f s refSchema h =
     (case deref h refSchema of None \<Rightarrow> None | Some r \<Rightarrow> assign s (f r) h)"

definition setRef :: "string \<Rightarrow> 'p Schema \<Rightarrow> 'p Schema" where
  "setRef v node =
     Schema (Type node) (Properties node) (Items node) (Format node) (OneOf node) (ID node) v"

definition copyID :: "'p Schema \<Rightarrow> 'p Schema \<Rightarrow> 'p Schema" where
  "copyID r node =
     Schema (Type node) (Properties node) (Items node) (Format node) (OneOf node) (ID r) (Ref node)"

definition copyType :: "'p Schema \<Rightarrow> 'p Schema \<Rightarrow> 'p Schema" where
  "copyType r node =
     Schema (Type r) (Properties node) (Items node) (Format node) (OneOf node) (ID node) (Ref node)"

definition copyProperties :: "'p Schema \<Rightarrow> 'p Schema \<Rightarrow> 'p Schema" where
  "copyProperties r node =
     Schema (Type node) (Properties r) (Items node) (Format node) (OneOf node) (ID node) (Ref node)"

definition copyItems :: "'p Schema \<Rightarrow> 'p Schema \<Rightarrow> 'p Schema" where
  "copyItems r node =
     Schema (Type node) (Properties node) (Items r) (Format node) (OneOf node) (ID node) (Ref node)"

definition resolveReference ::
  "('w, 'e) ReferenceResolver \<Rightarrow> ptr \<Rightarrow> heap \<times> 'w \<Rightarrow> 'e resolveError outcome \<times> (heap \<times> 'w)" where
  "resolveReference resolver s \<sigma> =
     (case deref (fst \<sigma>) s of
        None \<Rightarrow> (Panic, \<sigma>)
      | Some node \<Rightarrow>
          let ref = Ref node in
          if ref = '''' then (OK, \<sigma>)
          else
            (case resolver ref \<sigma> of
               (Inl err, \<sigma>') \<Rightarrow> (Error (ResolveFailed ref err), \<sigma>')
             | (Inr refSchema, (h, w)) \<Rightarrow>
                 (case assign s (setRef '''') h of
                    None \<Rightarrow> (Panic, (h, w))
                  | Some h1 \<Rightarrow>
                      (case Option.bind (copyField copyID s refSchema h1) (\<lambda>h2.
                            Option.bind (copyField copyType s refSchema h2) (\<lambda>h3.
                            Option.bind (copyField copyProperties s refSchema h3) (\<lambda>h4.
                            copyField copyItems s refSchema h4))) of
                         None \<Rightarrow> (Panic, (h1, w))
                       | Some h5 \<Rightarrow> (OK, (h5, w))))))"

text \<open>\<^verbatim>\<open>referenceResolverWalker.Walk\<close>.\<close>

definition referenceResolverWalker ::
  "('w, 'e) ReferenceResolver \<Rightarrow> ('w, 'e resolveError) SchemaWalker" where
  "referenceResolverWalker resolver s \<sigma> = resolveReference resolver s \<sigma>"

subsection \<open>\<^verbatim>\<open>Schema.Walk\<close>\<close>

text \<open>
  The errors \<^verbatim>\<open>Walk\<close> returns: the visitor's error, wrapped
  (\<^verbatim>\<open>failed to resolve json schema reference\<close>), and the two errors about the shape of
  a property, which name it. The constants are those of \<^verbatim>\<open>gojsonschema\<close>.
\<close>

datatype 'e walkError =
    WalkerFailed 'e
  | TypeNotFound string
  | ItemsNotFound string

definition TYPE_ARRAY :: string where
  "TYPE_ARRAY = ''array''"

definition TYPE_OBJECT :: string where
  "TYPE_OBJECT = ''object''"

text \<open>\<^verbatim>\<open>type stackItem struct\<close>. The stack is a list with its top at the head. \<^verbatim>\<open>Path\<close>
  is written and never read.\<close>

record stackItem =
  Node_item :: ptr
  Path :: "string list"

text \<open>Lines 515--527: the loop over the alternatives of a property.\<close>

fun walkAlternatives ::
  "('w, 'e) SchemaWalker \<Rightarrow> stackItem \<Rightarrow> string \<Rightarrow> ptr list \<Rightarrow> stackItem list \<Rightarrow> heap \<times> 'w
    \<Rightarrow> 'e walkError outcome \<times> stackItem list \<times> (heap \<times> 'w)" where
  "walkAlternatives walker item property [] stack \<sigma> = (OK, stack, \<sigma>)"
| "walkAlternatives walker item property (alternative # rest) stack \<sigma> =
     (case walker alternative \<sigma> of
        (Error err, \<sigma>') \<Rightarrow> (Error (WalkerFailed err), stack, \<sigma>')
      | (Panic, \<sigma>') \<Rightarrow> (Panic, stack, \<sigma>')
      | (OK, \<sigma>') \<Rightarrow>
          walkAlternatives walker item property rest
            (\<lparr>Node_item = alternative,
              Path = Path item @ [''properties'', property, ''oneOf'']\<rparr> # stack) \<sigma>')"

text \<open>Lines 507--566: the body of the loop over the properties of a node.\<close>

definition walkProperty ::
  "('w, 'e) SchemaWalker \<Rightarrow> stackItem \<Rightarrow> string \<Rightarrow> ptr \<Rightarrow> stackItem list \<Rightarrow> heap \<times> 'w
    \<Rightarrow> 'e walkError outcome \<times> stackItem list \<times> (heap \<times> 'w)" where
  "walkProperty walker item property schema stack \<sigma> =
     (case walker schema \<sigma> of
        (Error err, \<sigma>') \<Rightarrow> (Error (WalkerFailed err), stack, \<sigma>')
      | (Panic, \<sigma>') \<Rightarrow> (Panic, stack, \<sigma>')
      | (OK, \<sigma>') \<Rightarrow>
          (case deref (fst \<sigma>') schema of
             None \<Rightarrow> (Panic, stack, \<sigma>')
           | Some s \<Rightarrow>
               if length (OneOf s) > 0
               then walkAlternatives walker item property (OneOf s) stack \<sigma>'
               else
                 let propertyType = BaseType s in
                 if propertyType = '''' then (Error (TypeNotFound property), stack, \<sigma>')
                 else if propertyType = TYPE_ARRAY then
                   (let items = Items s in
                    if items = None then (Error (ItemsNotFound property), stack, \<sigma>')
                    else
                      (case walker items \<sigma>' of
                         (Error err, \<sigma>'') \<Rightarrow> (Error (WalkerFailed err), stack, \<sigma>'')
                       | (Panic, \<sigma>'') \<Rightarrow> (Panic, stack, \<sigma>'')
                       | (OK, \<sigma>'') \<Rightarrow>
                           (OK,
                            \<lparr>Node_item = items,
                             Path = Path item @ [''properties'', property, ''items'']\<rparr> # stack,
                            \<sigma>'')))
                 else if propertyType = TYPE_OBJECT then
                   (OK,
                    \<lparr>Node_item = schema, Path = Path item @ [''properties'', property]\<rparr> # stack,
                    \<sigma>')
                 else (OK, stack, \<sigma>')))"

text \<open>Line 506: the loop over the map, in the order of the list.\<close>

fun walkProperties ::
  "('w, 'e) SchemaWalker \<Rightarrow> stackItem \<Rightarrow> (string \<times> ptr) list \<Rightarrow> stackItem list \<Rightarrow> heap \<times> 'w
    \<Rightarrow> 'e walkError outcome \<times> stackItem list \<times> (heap \<times> 'w)" where
  "walkProperties walker item [] stack \<sigma> = (OK, stack, \<sigma>)"
| "walkProperties walker item ((property, schema) # rest) stack \<sigma> =
     (case walkProperty walker item property schema stack \<sigma> of
        (OK, stack', \<sigma>') \<Rightarrow> walkProperties walker item rest stack' \<sigma>'
      | (Error err, stack', \<sigma>') \<Rightarrow> (Error err, stack', \<sigma>')
      | (Panic, stack', \<sigma>') \<Rightarrow> (Panic, stack', \<sigma>'))"

text \<open>
  Lines 498--568: the loop over the stack. It may run forever, so it takes fuel, one
  unit for each item it pops; \<open>None\<close> says that the loop was still running when the fuel
  ran out.
\<close>

fun walkLoop ::
  "nat \<Rightarrow> ('w, 'e) SchemaWalker \<Rightarrow> stackItem list \<Rightarrow> heap \<times> 'w
    \<Rightarrow> ('e walkError outcome \<times> (heap \<times> 'w)) option" where
  "walkLoop fuel walker [] \<sigma> = Some (OK, \<sigma>)"
| "walkLoop 0 walker (item # stack) \<sigma> = None"
| "walkLoop (Suc fuel) walker (item # stack) \<sigma> =
     (case deref (fst \<sigma>) (Node_item item) of
        None \<Rightarrow> Some (Panic, \<sigma>)
      | Some node \<Rightarrow>
          (case Properties node of
             None \<Rightarrow> walkLoop fuel walker stack \<sigma>
           | Some properties \<Rightarrow>
               (case walkProperties walker item properties stack \<sigma> of
                  (OK, stack', \<sigma>') \<Rightarrow> walkLoop fuel walker stack' \<sigma>'
                | (Error err, stack', \<sigma>') \<Rightarrow> Some (Error err, \<sigma>')
                | (Panic, stack', \<sigma>') \<Rightarrow> Some (Panic, \<sigma>'))))"

definition Walk ::
  "nat \<Rightarrow> ('w, 'e) SchemaWalker \<Rightarrow> ptr \<Rightarrow> heap \<times> 'w
    \<Rightarrow> ('e walkError outcome \<times> (heap \<times> 'w)) option" where
  "Walk fuel walker s \<sigma> = walkLoop fuel walker [\<lparr>Node_item = s, Path = []\<rparr>] \<sigma>"

definition ResolveReferences ::
  "nat \<Rightarrow> ('w, 'e) ReferenceResolver \<Rightarrow> ptr \<Rightarrow> heap \<times> 'w
    \<Rightarrow> ('e resolveError walkError outcome \<times> (heap \<times> 'w)) option" where
  "ResolveReferences fuel resolver s \<sigma> = Walk fuel (referenceResolverWalker resolver) s \<sigma>"




subsection \<open>Visitors and schemas used in the statements\<close>




subsection \<open>Ranked heaps, and what a proof about a walk assumes of the visitor\<close>










section \<open>Properties of the type field\<close>

text \<open>
  Claim C1. Parsing the \<^verbatim>\<open>"type"\<close> field is meant to accept a single string or an
  array of strings. The code decodes the raw value into an \<^verbatim>\<open>interface{}\<close>, so an array
  arrives as \<^verbatim>\<open>[]interface{}\<close> and misses the \<^verbatim>\<open>case []string\<close> of the type switch:
  the document \<^verbatim>\<open>{"type":["string","null"]}\<close>, and every document whose \<^verbatim>\<open>"type"\<close> is
  an array, is rejected with \<^verbatim>\<open>unexpected type for property "type"\<close>, whatever the
  receiver and the iteration order.
\<close>

theorem UnmarshalJSON_type_array_rejected:
  "UnmarshalJSON rangeOrder s (JObject [(''type'', JArray [JString ''string'', JString ''null''])])
     = Inl UnexpectedTypeForType
   \<and> UnmarshalJSON rangeOrder s (JObject [(''type'', JArray xs)]) = Inl UnexpectedTypeForType"
  by (simp add: UnmarshalJSON.simps stringField_def member_def unmarshalType_def typeKeys_def)

text \<open>Helper facts: a duplicate-free list with a one-element set is that element.\<close>

lemma distinct_singleton_set:
  assumes "distinct xs" and "set xs = {t}"
  shows "xs = [t]"
proof (cases xs)
  case Nil
  with assms(2) show ?thesis by simp
next
  case (Cons y ys)
  have "y \<in> set xs"
    unfolding Cons by simp
  then have y: "y = t"
    unfolding assms(2) by (rule singletonD)
  have "ys = []"
  proof (cases ys)
    case Nil
    then show ?thesis .
  next
    case (Cons z zs)
    have "z \<in> set xs"
      unfolding \<open>xs = y # ys\<close> Cons by simp
    then have "z = t"
      unfolding assms(2) by (rule singletonD)
    moreover have "z \<noteq> y"
      using assms(1) unfolding \<open>xs = y # ys\<close> Cons by auto
    ultimately show ?thesis
      using y by simp
  qed
  with Cons y show ?thesis by simp
qed

lemma filter_singleton:
  assumes "distinct ts" and "set ts - {n} = {t}"
  shows "filter (\<lambda>x. x \<noteq> n) ts = [t]"
proof (rule distinct_singleton_set)
  show "distinct (filter (\<lambda>x. x \<noteq> n) ts)"
    using assms(1) by (rule distinct_filter)
  have "set (filter (\<lambda>x. x \<noteq> n) ts) = set ts - {n}"
    by auto
  then show "set (filter (\<lambda>x. x \<noteq> n) ts) = {t}"
    unfolding assms(2) .
qed

text \<open>
  Claim C2 (corrected). \<^verbatim>\<open>BaseType()\<close> counts the entries of the \<^verbatim>\<open>Type\<close> slice, not
  the members of a set. It returns the single tag other than \<^verbatim>\<open>"null"\<close> when exactly one
  entry of the slice differs from \<^verbatim>\<open>"null"\<close>; for a slice without repeated tags that is
  when the type set minus \<^verbatim>\<open>"null"\<close> has exactly one member. It returns \<^verbatim>\<open>"null"\<close>
  when the type set is exactly \<^verbatim>\<open>{"null"}\<close>, and the empty string when the slice is
  empty and when more than one entry differs from \<^verbatim>\<open>"null"\<close>.
\<close>

theorem BaseType_cases:
  "(filter (\<lambda>x. x \<noteq> ''null'') (tags (Type s)) = [t] \<longrightarrow> BaseType s = t)
   \<and> (distinct (tags (Type s)) \<and> set (tags (Type s)) - {''null''} = {t} \<longrightarrow> BaseType s = t)
   \<and> (set (tags (Type s)) = {''null''} \<longrightarrow> BaseType s = ''null'')
   \<and> (tags (Type s) = [] \<longrightarrow> BaseType s = '''')
   \<and> (1 < length (filter (\<lambda>x. x \<noteq> ''null'') (tags (Type s))) \<longrightarrow> BaseType s = '''')"
proof (intro conjI impI)
  assume one: "filter (\<lambda>x. x \<noteq> ''null'') (tags (Type s)) = [t]"
  have "tags (Type s) \<noteq> []"
  proof
    assume "tags (Type s) = []"
    with one show False by simp
  qed
  with one show "BaseType s = t"
    by (simp add: BaseType_def)
next
  assume "distinct (tags (Type s)) \<and> set (tags (Type s)) - {''null''} = {t}"
  then have one: "filter (\<lambda>x. x \<noteq> ''null'') (tags (Type s)) = [t]"
    by (simp only: filter_singleton)
  have "tags (Type s) \<noteq> []"
  proof
    assume "tags (Type s) = []"
    with one show False by simp
  qed
  with one show "BaseType s = t"
    by (simp add: BaseType_def)
next
  assume only_null: "set (tags (Type s)) = {''null''}"
  have nonempty: "tags (Type s) \<noteq> []"
  proof
    assume "tags (Type s) = []"
    with only_null show False by simp
  qed
  have "\<And>x. x \<in> set (tags (Type s)) \<Longrightarrow> x = ''null''"
    unfolding only_null by (rule singletonD)
  then have "filter (\<lambda>x. x \<noteq> ''null'') (tags (Type s)) = []"
    unfolding filter_empty_conv by blast
  with nonempty show "BaseType s = ''null''"
    by (simp add: BaseType_def)
next
  assume "tags (Type s) = []"
  then show "BaseType s = ''''"
    by (simp add: BaseType_def)
next
  assume many: "1 < length (filter (\<lambda>x. x \<noteq> ''null'') (tags (Type s)))"
  have "filter (\<lambda>x. x \<noteq> ''null'') (tags (Type s)) \<noteq> []"
  proof
    assume "filter (\<lambda>x. x \<noteq> ''null'') (tags (Type s)) = []"
    with many show False by simp
  qed
  with many show "BaseType s = ''''"
    by (simp add: BaseType_def Let_def)
qed

theorem BaseType_cases_witness:
  "filter (\<lambda>x. x \<noteq> ''null'') (tags (Type (Schema (Some [''string'', ''null'']) None Nil [] [] [] [])))
     = [''string'']
   \<and> BaseType (Schema (Some [''string'', ''null'']) None Nil [] [] [] []) = ''string''
   \<and> distinct (tags (Type (Schema (Some [''string'', ''null'']) None Nil [] [] [] [])))
   \<and> set (tags (Type (Schema (Some [''string'', ''null'']) None Nil [] [] [] []))) - {''null''}
        = {''string''}
   \<and> set (tags (Type (Schema (Some [''null'']) None Nil [] [] [] []))) = {''null''}
   \<and> BaseType (Schema (Some [''null'']) None Nil [] [] [] []) = ''null''
   \<and> tags (Type (Schema None None Nil [] [] [] [])) = []
   \<and> BaseType (Schema None None Nil [] [] [] []) = ''''
   \<and> 1 < length (filter (\<lambda>x. x \<noteq> ''null'')
                   (tags (Type (Schema (Some [''string'', ''number'']) None Nil [] [] [] []))))
   \<and> BaseType (Schema (Some [''string'', ''number'']) None Nil [] [] [] []) = ''''"
proof -
  have minus_null: "{''string'', ''null''} - {''null''} = {''string''}"
    by auto
  show ?thesis
    using BaseType_cases [of "Schema (Some [''string'', ''null'']) None Nil [] [] [] []" "''string''"]
      BaseType_cases [of "Schema (Some [''null'']) None Nil [] [] [] []"]
      BaseType_cases [of "Schema None None Nil [] [] [] []"]
      BaseType_cases [of "Schema (Some [''string'', ''number'']) None Nil [] [] [] []"]
    by (simp add: minus_null)
qed

text \<open>
  Claim C2, as stated, fails on a slice that repeats a tag (\<^verbatim>\<open>PrepareDummySchema\<close>
  copies its argument as it is, and \<^verbatim>\<open>resolveReference\<close> copies the referent's
  slice): for the node \<^verbatim>\<open>PrepareDummySchema([]string{"string", "string"})\<close> the type
  set minus \<^verbatim>\<open>"null"\<close> is \<^verbatim>\<open>{"string"}\<close>, yet \<^verbatim>\<open>BaseType()\<close> finds two entries
  and returns the empty string.
\<close>

theorem BaseType_duplicate_tag_counterexample:
  "set (tags (Type (PrepareDummySchema [''string'', ''string'']))) - {''null''} = {''string''}
   \<and> BaseType (PrepareDummySchema [''string'', ''string'']) \<noteq> ''string''"
  by (simp add: BaseType_def PrepareDummySchema_def)

subsection \<open>Serialise, then parse\<close>

text \<open>Facts about lookups and about the members that \<^verbatim>\<open>json.Marshal\<close> writes for a
  node.\<close>

lemma member_absent: "k \<notin> fst ` set kvs \<Longrightarrow> member kvs k = None"
  unfolding member_def by (simp add: map_of_eq_None_iff)

lemma member_head:
  assumes "k \<notin> fst ` set rest" shows "member ((k, v) # rest) k = Some v"
proof -
  have "map_of (rev rest) k = None"
    using assms by (simp add: map_of_eq_None_iff)
  then show ?thesis
    by (simp add: member_def map_add_def)
qed

lemma member_tail: "k \<noteq> k' \<Longrightarrow> member ((k', v) # rest) k = member rest k"
  unfolding member_def by (simp add: map_add_def split: option.splits)

lemma UnmarshalJSON_type_error:
  "rawMessages d = Some kvs \<Longrightarrow> stringField kvs ''$ref'' (Ref r) = Inr v \<Longrightarrow>
   unmarshalType rangeOrder kvs = Inl e \<Longrightarrow> UnmarshalJSON rangeOrder r d = Inl e"
  by (subst UnmarshalJSON.simps) simp

lemma UnmarshalJSON_Type:
  assumes "UnmarshalJSON rangeOrder r d = Inr s'"
  shows "\<exists>kvs. rawMessages d = Some kvs \<and> unmarshalType rangeOrder kvs = Inr (Type s')"
proof (cases "rawMessages d")
  case None
  with assms show ?thesis
    by (subst (asm) UnmarshalJSON.simps) simp
next
  case (Some kvs)
  show ?thesis
  proof (cases "unmarshalType rangeOrder kvs")
    case (Inl e)
    with Some assms show ?thesis
      by (subst (asm) UnmarshalJSON.simps) (simp split: sum.splits)
  next
    case (Inr ty)
    with Some assms have "Type s' = ty"
      by (subst (asm) UnmarshalJSON.simps) (auto split: sum.splits)
    with Some Inr show ?thesis by simp
  qed
qed

lemma MarshalSchema_Node:
  "\<exists>rest. MarshalSchema (Node s) = JObject ((''type'', MarshalJSON (Type s)) # rest)
      \<and> fst ` set rest \<subseteq> {''properties'', ''items'', ''format'', ''oneOf'', ''$id'', ''$ref''}
      \<and> (\<forall>v. (''$ref'', v) \<in> set rest \<longrightarrow> v = marshalString (Ref s))"
  by (cases s) (auto split: option.splits Tree.splits if_splits)

lemma marshalled_type_field:
  assumes "rawMessages (MarshalSchema (Node s)) = Some kvs"
  shows "member kvs ''type'' = Some (MarshalJSON (Type s))"
    and "member kvs ''nullable'' = None"
    and "\<exists>v. stringField kvs ''$ref'' old = Inr v"
proof -
  obtain rest where m: "MarshalSchema (Node s) = JObject ((''type'', MarshalJSON (Type s)) # rest)"
    and keys: "fst ` set rest \<subseteq> {''properties'', ''items'', ''format'', ''oneOf'', ''$id'', ''$ref''}"
    and ref: "\<forall>v. (''$ref'', v) \<in> set rest \<longrightarrow> v = marshalString (Ref s)"
    using MarshalSchema_Node by blast
  from m assms have kvs: "kvs = (''type'', MarshalJSON (Type s)) # rest"
    by simp
  have "''type'' \<notin> fst ` set rest"
    using keys by auto
  then show "member kvs ''type'' = Some (MarshalJSON (Type s))"
    unfolding kvs by (rule member_head)
  have "''nullable'' \<notin> fst ` set kvs"
    using keys unfolding kvs by auto
  then show "member kvs ''nullable'' = None"
    by (rule member_absent)
  show "\<exists>v. stringField kvs ''$ref'' old = Inr v"
  proof (cases "member kvs ''$ref''")
    case None
    then show ?thesis by (simp add: stringField_def)
  next
    case (Some v)
    then have "(''$ref'', v) \<in> set kvs"
      by (rule member_in_set)
    then have "v = marshalString (Ref s)"
      using ref unfolding kvs by simp
    with Some show ?thesis by (simp add: stringField_def marshalString_def)
  qed
qed




text \<open>
  Claim C10 (corrected). A node whose type slice is empty but not nil serialises its
  type as the empty JSON array: the \<^verbatim>\<open>"type"\<close> member is present and is \<^verbatim>\<open>[]\<close>. Parsing
  the serialised node fails with the error of the \<^verbatim>\<open>"type"\<close> field, for every node with
  no type tag (the nil slice, written as \<^verbatim>\<open>null\<close>, included). A document that has no
  \<^verbatim>\<open>"type"\<close> and whose \<^verbatim>\<open>"nullable"\<close> is not \<^verbatim>\<open>true\<close> parses, when it parses, to such an
  empty, non-nil slice.
\<close>

theorem empty_type_roundtrip_fails:
  "(Type s = Some [] \<longrightarrow>
      MarshalJSON (Type s) = JArray []
      \<and> (\<exists>kvs. MarshalSchema (Node s) = JObject kvs \<and> member kvs ''type'' = Some (JArray [])))
   \<and> (tags (Type s) = [] \<longrightarrow>
      UnmarshalJSON rangeOrder r (MarshalSchema (Node s)) = Inl UnexpectedTypeForType)
   \<and> (rangeOrder [] = [] \<and> member kvs ''type'' = None
        \<and> member kvs ''nullable'' \<noteq> Some (JBool True)
        \<and> UnmarshalJSON rangeOrder r (JObject kvs) = Inr s'
      \<longrightarrow> Type s' = Some [])"
proof (intro conjI impI)
  assume "Type s = Some []"
  then show "MarshalJSON (Type s) = JArray []"
    by (simp add: MarshalJSON_def)
next
  assume ty: "Type s = Some []"
  obtain kvs where kvs: "MarshalSchema (Node s) = JObject kvs"
    using MarshalSchema_Node by blast
  then have "member kvs ''type'' = Some (MarshalJSON (Type s))"
    using marshalled_type_field(1) [of s kvs] by simp
  with ty kvs show "\<exists>kvs. MarshalSchema (Node s) = JObject kvs \<and> member kvs ''type'' = Some (JArray [])"
    by (simp add: MarshalJSON_def)
next
  assume ty: "tags (Type s) = []"
  obtain kvs where kvs: "rawMessages (MarshalSchema (Node s)) = Some kvs"
    using MarshalSchema_Node [of s] by auto
  have "member kvs ''type'' = Some (MarshalJSON (Type s))"
    using marshalled_type_field(1) [OF kvs] .
  moreover have "MarshalJSON (Type s) = JNull \<or> MarshalJSON (Type s) = JArray []"
    using ty by (cases "Type s") (simp_all add: MarshalJSON_def)
  ultimately have "unmarshalType rangeOrder kvs = Inl UnexpectedTypeForType"
    by (auto simp: unmarshalType_def typeKeys_def)
  moreover obtain v where "stringField kvs ''$ref'' (Ref r) = Inr v"
    using marshalled_type_field(3) [OF kvs] by blast
  ultimately show "UnmarshalJSON rangeOrder r (MarshalSchema (Node s)) = Inl UnexpectedTypeForType"
    using kvs by (auto intro: UnmarshalJSON_type_error)
next
  assume a: "rangeOrder [] = [] \<and> member kvs ''type'' = None
        \<and> member kvs ''nullable'' \<noteq> Some (JBool True)
        \<and> UnmarshalJSON rangeOrder r (JObject kvs) = Inr s'"
  then have parsed: "unmarshalType rangeOrder kvs = Inr (Type s')"
    using UnmarshalJSON_Type [of rangeOrder r "JObject kvs" s'] by simp
  show "Type s' = Some []"
  proof (cases "member kvs ''nullable''")
    case None
    with a parsed show ?thesis
      by (simp add: unmarshalType_def typeKeys_def nullableKeys_def)
  next
    case (Some nullableJSON)
    with a have "nullableJSON \<noteq> JBool True"
      by simp
    with Some a parsed show ?thesis
      by (cases nullableJSON)
        (auto simp: unmarshalType_def typeKeys_def nullableKeys_def split: if_splits)
  qed
qed

theorem empty_type_roundtrip_fails_witness:
  "Type (Schema (Some []) None Nil [] [] [] []) = Some []
   \<and> MarshalJSON (Type (Schema (Some []) None Nil [] [] [] [])) = JArray []
   \<and> MarshalSchema (Node (Schema (Some []) None Nil [] [] [] [])) = JObject [(''type'', JArray [])]
   \<and> tags (Type (Schema (Some []) None Nil [] [] [] [])) = []
   \<and> UnmarshalJSON rev zeroSchema (MarshalSchema (Node (Schema (Some []) None Nil [] [] [] [])))
        = Inl UnexpectedTypeForType
   \<and> rev ([] :: string list) = [] \<and> member [(''nullable'', JBool False)] ''type'' = None
   \<and> member [(''nullable'', JBool False)] ''nullable'' \<noteq> Some (JBool True)
   \<and> UnmarshalJSON rev zeroSchema (JObject [(''nullable'', JBool False)])
        = Inr (Schema (Some []) None Nil [] [] [] [])"
  using empty_type_roundtrip_fails [of "Schema (Some []) None Nil [] [] [] []" rev zeroSchema
      "[(''nullable'', JBool False)]" "Schema (Some []) None Nil [] [] [] []"]
  by (simp add: MarshalJSON_def UnmarshalJSON.simps stringField_def member_def
      unmarshalType_def typeKeys_def nullableKeys_def zeroSchema_def)

text \<open>
  Claim C10, as stated, says that every node parsed from a document without a
  \<^verbatim>\<open>"type"\<close> field has an empty type set. The document \<^verbatim>\<open>{"nullable":true}\<close> has no
  \<^verbatim>\<open>"type"\<close>, and its node has the type set \<^verbatim>\<open>["null"]\<close>.
\<close>

theorem empty_type_nullable_counterexample:
  "member [(''nullable'', JBool True)] ''type'' = None
   \<and> UnmarshalJSON (\<lambda>ks. ks) zeroSchema (JObject [(''nullable'', JBool True)])
       = Inr (Schema (Some [''null'']) None Nil [] [] [] [])
   \<and> tags (Type (Schema (Some [''null'']) None Nil [] [] [] [])) \<noteq> []"
  by (simp add: UnmarshalJSON.simps stringField_def member_def unmarshalType_def typeKeys_def
      nullableKeys_def addKey_def zeroSchema_def)

section \<open>Properties of reference resolution and of the walk\<close>

subsection \<open>The reference-resolution visitor\<close>





subsection \<open>Properties with alternatives\<close>







subsection \<open>The loops of the walk, under an invariant\<close>
























lemma walkLoop_more_fuel:
  "walkLoop fuel walker stack \<sigma> = Some res \<Longrightarrow> walkLoop (fuel + extra) walker stack \<sigma> = Some res"
proof (induction fuel walker stack \<sigma> rule: walkLoop.induct)
  case (1 fuel walker \<sigma>)
  then show ?case by simp
next
  case (2 walker item stack \<sigma>)
  then show ?case by simp
next
  case (3 fuel walker item stack \<sigma>)
  show ?case
  proof (cases "deref (fst \<sigma>) (Node_item item)")
    case None
    with "3.prems" show ?thesis by simp
  next
    case (Some node)
    show ?thesis
    proof (cases "Properties node")
      case None
      with Some "3.prems" "3.IH"(1) show ?thesis by simp
    next
      case props: (Some ps)
      obtain r stack1 \<sigma>1 where loop: "walkProperties walker item ps stack \<sigma> = (r, stack1, \<sigma>1)"
        by (cases "walkProperties walker item ps stack \<sigma>")
      show ?thesis
      proof (cases r)
        case OK
        with Some props loop "3.prems" have "walkLoop fuel walker stack1 \<sigma>1 = Some res"
          by simp
        then have "walkLoop (fuel + extra) walker stack1 \<sigma>1 = Some res"
          using "3.IH"(2) [OF Some props loop [symmetric]] OK by simp
        with Some props loop OK show ?thesis by simp
      next
        case (Error e)
        with Some props loop "3.prems" show ?thesis by simp
      next
        case Panic
        with Some props loop "3.prems" show ?thesis by simp
      qed
    qed
  qed
qed

lemma walkLoop_deterministic:
  assumes "walkLoop fuel1 walker stack \<sigma> = Some res1" and "walkLoop fuel2 walker stack \<sigma> = Some res2"
  shows "res1 = res2"
proof -
  have "walkLoop (fuel1 + fuel2) walker stack \<sigma> = Some res1"
    using assms(1) by (rule walkLoop_more_fuel)
  moreover have "walkLoop (fuel2 + fuel1) walker stack \<sigma> = Some res2"
    using assms(2) by (rule walkLoop_more_fuel)
  ultimately show ?thesis
    by (simp add: add.commute)
qed

subsection \<open>Termination\<close>






end
